theory Spec2Isabelle
  imports Complex_Main "HOL-Library.Log_Nat"
begin

section \<open>Text: characters, case, whitespace\<close>

text \<open>
  A Python \<open>str\<close> is modelled as a \<open>string\<close>; the model follows Python on ASCII
  text. The character classes are those of the \<open>re\<close> module and of \<open>str\<close> on ASCII:
  \<open>\d\<close> is a decimal digit, \<open>\w\<close> a letter, a digit or the underscore, \<open>\s\<close> (and
  what \<open>str.strip\<close> removes) the blank, the controls 9 to 13 and 28 to 31.
\<close>

definition is_digit :: "char \<Rightarrow> bool" where
  "is_digit c \<longleftrightarrow> c \<in> set ''0123456789''"

definition is_upper :: "char \<Rightarrow> bool" where
  "is_upper c \<longleftrightarrow> c \<in> set ''ABCDEFGHIJKLMNOPQRSTUVWXYZ''"

definition is_lower :: "char \<Rightarrow> bool" where
  "is_lower c \<longleftrightarrow> c \<in> set ''abcdefghijklmnopqrstuvwxyz''"

definition is_word_char :: "char \<Rightarrow> bool" where
  "is_word_char c \<longleftrightarrow> is_digit c \<or> is_lower c \<or> is_upper c \<or> c = CHR ''_''"

definition is_space :: "char \<Rightarrow> bool" where
  "is_space c \<longleftrightarrow>
     c \<in> set [CHR '' '', CHR 0x09, CHR 0x0A, CHR 0x0B, CHR 0x0C, CHR 0x0D,
               CHR 0x1C, CHR 0x1D, CHR 0x1E, CHR 0x1F]"

definition lower_char :: "char \<Rightarrow> char" where
  "lower_char c =
     (case map_of (zip ''ABCDEFGHIJKLMNOPQRSTUVWXYZ'' ''abcdefghijklmnopqrstuvwxyz'') c of
        Some d \<Rightarrow> d
      | None \<Rightarrow> c)"

text \<open>\<open>str.lower\<close> and \<open>str.strip\<close>.\<close>

definition lower :: "string \<Rightarrow> string" where
  "lower s = map lower_char s"

definition strip :: "string \<Rightarrow> string" where
  "strip s = rev (dropWhile is_space (rev (dropWhile is_space s)))"

section \<open>Regular-expression and replacement primitives\<close>

text \<open>
  \<open>starts_with p s\<close>: the text \<open>s\<close> begins with \<open>p\<close>. \<open>contains p s\<close>: \<open>p\<close> occurs
  somewhere in \<open>s\<close>, which is what \<open>re.search\<close> decides for a literal pattern.
\<close>

fun starts_with :: "string \<Rightarrow> string \<Rightarrow> bool" where
  "starts_with [] s = True"
| "starts_with (p # ps) [] = False"
| "starts_with (p # ps) (c # cs) = (p = c \<and> starts_with ps cs)"

fun contains :: "string \<Rightarrow> string \<Rightarrow> bool" where
  "contains p [] = (p = [])"
| "contains p (c # cs) = (starts_with p (c # cs) \<or> contains p cs)"

text \<open>
  \<open>word_end p s\<close>: \<open>s\<close> begins with \<open>p\<close> and a word boundary follows it. Every pattern
  used with \<open>\b\<close> in the source begins and ends with a letter, so the boundary after it
  holds exactly when the text ends there or continues with a character outside \<open>\w\<close>,
  and the boundary before it when the preceding character, if any, is outside \<open>\w\<close>.
\<close>

definition word_end :: "string \<Rightarrow> string \<Rightarrow> bool" where
  "word_end p s \<longleftrightarrow>
     starts_with p s \<and>
     (case drop (length p) s of [] \<Rightarrow> True | c # _ \<Rightarrow> \<not> is_word_char c)"

text \<open>
  \<open>re.sub(r"\bword\b", repl, text)\<close>: the text is scanned from the left, each match is
  replaced and the scan goes on behind it. The flag says whether the character before the
  current position is a word character.
\<close>

function sub_word_from :: "bool \<Rightarrow> string \<Rightarrow> string \<Rightarrow> string \<Rightarrow> string" where
  "sub_word_from prev w r [] = []"
| "sub_word_from prev w r (c # cs) =
     (if w \<noteq> [] \<and> \<not> prev \<and> word_end w (c # cs)
      then r @ sub_word_from True w r (drop (length w) (c # cs))
      else c # sub_word_from (is_word_char c) w r cs)"
  by pat_completeness auto
termination
  by (relation "measure (\<lambda>(prev, w, r, s). length s)") (auto simp: neq_Nil_conv)

definition sub_word :: "string \<Rightarrow> string \<Rightarrow> string \<Rightarrow> string" where
  "sub_word w r s = sub_word_from False w r s"

text \<open>\<open>str.replace(old, new)\<close> for a non-empty \<open>old\<close>: every occurrence, left to right.\<close>

function replace :: "string \<Rightarrow> string \<Rightarrow> string \<Rightarrow> string" where
  "replace old new [] = []"
| "replace old new (c # cs) =
     (if old \<noteq> [] \<and> starts_with old (c # cs)
      then new @ replace old new (drop (length old) (c # cs))
      else c # replace old new cs)"
  by pat_completeness auto
termination
  by (relation "measure (\<lambda>(old, new, s). length s)") (auto simp: neq_Nil_conv)

text \<open>
  \<open>re.sub(r"(\d)\s*x\s*(\d)", r"\1*\2", text)\<close>: a digit, blanks, the letter x, blanks
  and a digit collapse to the two digits around a star; the scan goes on behind the
  second digit, so that digit does not open the next match.
\<close>

definition x_match :: "string \<Rightarrow> (char \<times> string) option" where
  "x_match s =
     (case dropWhile is_space s of
        [] \<Rightarrow> None
      | c # r \<Rightarrow>
          if c = CHR ''x'' then
            (case dropWhile is_space r of
               [] \<Rightarrow> None
             | d # rest \<Rightarrow> if is_digit d then Some (d, rest) else None)
          else None)"

lemma x_match_shorter: "x_match s = Some (d, rest) \<Longrightarrow> length rest < length s"
proof -
  assume a: "x_match s = Some (d, rest)"
  obtain r where r: "dropWhile is_space s = CHR ''x'' # r" and d: "dropWhile is_space r = d # rest"
    using a by (auto simp: x_match_def split: list.splits if_splits)
  have "length rest < length (dropWhile is_space r)" using d by simp
  also have "\<dots> \<le> length r" by (rule length_dropWhile_le)
  also have "\<dots> < length (dropWhile is_space s)" using r by simp
  also have "\<dots> \<le> length s" by (rule length_dropWhile_le)
  finally show ?thesis .
qed

function sub_x :: "string \<Rightarrow> string" where
  "sub_x [] = []"
| "sub_x (c # cs) =
     (if is_digit c then
        (case x_match cs of
           Some (d, rest) \<Rightarrow> c # CHR ''*'' # d # sub_x rest
         | None \<Rightarrow> c # sub_x cs)
      else c # sub_x cs)"
  by pat_completeness auto
termination
  by (relation "measure length") (auto dest: x_match_shorter)

section \<open>Numbers\<close>

text \<open>
  The evaluator computes with Python's \<open>int\<close> (unbounded) and \<open>float\<close> (IEEE 754
  binary64). A finite float is the rational it denotes; the sign of a zero is not
  recorded (no operation of the evaluator tells the two zeros apart: a division by
  either raises, and \<open>try_math\<close> prints both as \<open>0\<close>). Every float operation returns
  the correctly rounded result: the exact result rounded to the nearest float (53 bits of
  significand, exponents down to \<open>- 1074\<close>), ties to the even significand, and to an
  infinity when the rounded magnitude reaches \<open>2 ^ 1024\<close>.
\<close>

datatype pyfloat = Fin rat | PInf | NInf | NaN

datatype num = PyInt int | PyFloat pyfloat

datatype error =
    SyntaxError
  | ValueError string
  | ZeroDivisionError
  | OverflowError
  | AttributeError
  | RecursionError
  | UnicodeEncodeError
  | BackendError

definition pow2 :: "int \<Rightarrow> rat" where
  "pow2 e = (if 0 \<le> e then 2 ^ nat e else 1 / 2 ^ nat (- e))"

text \<open>\<open>ilog2 r\<close> for \<open>r > 0\<close>: the exponent \<open>e\<close> with \<open>2 ^ e \<le> r < 2 ^ (e + 1)\<close>.\<close>

definition ilog2 :: "rat \<Rightarrow> int" where
  "ilog2 r =
     (let (p, q) = quotient_of r; d = bitlen p - bitlen q
      in if pow2 d \<le> r then d else d - 1)"

definition round_half_even :: "rat \<Rightarrow> int" where
  "round_half_even x =
     (let f = \<lfloor>x\<rfloor>; d = x - of_int f
      in if d < 1 / 2 then f
         else if 1 / 2 < d then f + 1
         else if even f then f else f + 1)"

definition round_double :: "rat \<Rightarrow> pyfloat" where
  "round_double r =
     (if r = 0 then Fin 0
      else
        let a = \<bar>r\<bar>;
            e = ilog2 a;
            q = max (e - 52) (- 1074);
            m = round_half_even (a / pow2 q)
        in if 1024 \<le> e \<or> (e = 1023 \<and> m = 2 ^ 53) then (if r < 0 then NInf else PInf)
           else Fin ((if r < 0 then - 1 else 1) * of_int m * pow2 q))"

fun fneg :: "pyfloat \<Rightarrow> pyfloat" where
  "fneg (Fin a) = Fin (- a)"
| "fneg PInf = NInf"
| "fneg NInf = PInf"
| "fneg NaN = NaN"

fun fadd :: "pyfloat \<Rightarrow> pyfloat \<Rightarrow> pyfloat" where
  "fadd (Fin a) (Fin b) = round_double (a + b)"
| "fadd NaN y = NaN"
| "fadd x NaN = NaN"
| "fadd PInf NInf = NaN"
| "fadd NInf PInf = NaN"
| "fadd PInf y = PInf"
| "fadd NInf y = NInf"
| "fadd x PInf = PInf"
| "fadd x NInf = NInf"

definition fsub :: "pyfloat \<Rightarrow> pyfloat \<Rightarrow> pyfloat" where
  "fsub x y = fadd x (fneg y)"

definition fsign :: "pyfloat \<Rightarrow> int" where
  "fsign x =
     (case x of
        Fin a \<Rightarrow> (if 0 < a then 1 else if a < 0 then - 1 else 0)
      | PInf \<Rightarrow> 1
      | NInf \<Rightarrow> - 1
      | NaN \<Rightarrow> 0)"

definition is_inf :: "pyfloat \<Rightarrow> bool" where
  "is_inf x \<longleftrightarrow> x = PInf \<or> x = NInf"

fun fmul :: "pyfloat \<Rightarrow> pyfloat \<Rightarrow> pyfloat" where
  "fmul (Fin a) (Fin b) = round_double (a * b)"
| "fmul NaN y = NaN"
| "fmul x NaN = NaN"
| "fmul x y =
     (if fsign x * fsign y = 0 then NaN
      else if 0 < fsign x * fsign y then PInf else NInf)"

text \<open>\<open>fdiv\<close> is only called with a divisor that is not zero.\<close>

fun fdiv :: "pyfloat \<Rightarrow> pyfloat \<Rightarrow> pyfloat" where
  "fdiv (Fin a) (Fin b) = round_double (a / b)"
| "fdiv NaN y = NaN"
| "fdiv x NaN = NaN"
| "fdiv (Fin a) y = Fin 0"
| "fdiv x (Fin b) = (if 0 < fsign x * fsign (Fin b) then PInf else NInf)"
| "fdiv x y = NaN"

text \<open>
  \<open>float(i)\<close> for an \<open>int\<close>, as the mixed operations do it: correctly rounded, and
  \<open>OverflowError\<close> when the result is not finite.
\<close>

definition as_float :: "num \<Rightarrow> error + pyfloat" where
  "as_float n =
     (case n of
        PyFloat x \<Rightarrow> Inr x
      | PyInt i \<Rightarrow>
          (case round_double (of_int i) of
             Fin a \<Rightarrow> Inr (Fin a)
           | _ \<Rightarrow> Inl OverflowError))"

definition float_op :: "(pyfloat \<Rightarrow> pyfloat \<Rightarrow> pyfloat) \<Rightarrow> num \<Rightarrow> num \<Rightarrow> error + num" where
  "float_op f a b =
     (case as_float a of
        Inl e \<Rightarrow> Inl e
      | Inr x \<Rightarrow>
          (case as_float b of
             Inl e \<Rightarrow> Inl e
           | Inr y \<Rightarrow> Inr (PyFloat (f x y))))"

text \<open>\<open>operator.add\<close>, \<open>operator.sub\<close>, \<open>operator.mul\<close> and \<open>operator.truediv\<close> on numbers.\<close>

fun py_add :: "num \<Rightarrow> num \<Rightarrow> error + num" where
  "py_add (PyInt a) (PyInt b) = Inr (PyInt (a + b))"
| "py_add a b = float_op fadd a b"

fun py_sub :: "num \<Rightarrow> num \<Rightarrow> error + num" where
  "py_sub (PyInt a) (PyInt b) = Inr (PyInt (a - b))"
| "py_sub a b = float_op fsub a b"

fun py_mul :: "num \<Rightarrow> num \<Rightarrow> error + num" where
  "py_mul (PyInt a) (PyInt b) = Inr (PyInt (a * b))"
| "py_mul a b = float_op fmul a b"

definition is_zero :: "num \<Rightarrow> bool" where
  "is_zero n \<longleftrightarrow> n = PyInt 0 \<or> n = PyFloat (Fin 0)"

fun py_truediv :: "num \<Rightarrow> num \<Rightarrow> error + num" where
  "py_truediv (PyInt a) (PyInt b) =
     (if b = 0 then Inl ZeroDivisionError
      else (case round_double (of_int a / of_int b) of
              Fin q \<Rightarrow> Inr (PyFloat (Fin q))
            | _ \<Rightarrow> Inl OverflowError))"
| "py_truediv a b =
     (case as_float a of
        Inl e \<Rightarrow> Inl e
      | Inr x \<Rightarrow>
          (case as_float b of
             Inl e \<Rightarrow> Inl e
           | Inr y \<Rightarrow>
               if y = Fin 0 then Inl ZeroDivisionError else Inr (PyFloat (fdiv x y))))"

section \<open>Expression trees and the evaluator\<close>

text \<open>
  The nodes of Python's \<open>ast\<close> module that an expression can consist of. \<open>Num\<close> is a
  constant holding an \<open>int\<close> or a \<open>float\<close> (what \<open>isinstance(node, ast.Num)\<close> accepts;
  imaginary literals are outside the model, \<open>try_math\<close> deletes the letter they need),
  \<open>Constant\<close> any other constant (a string, \<open>True\<close>, \<open>None\<close>, the ellipsis), and
  \<open>Other\<close> stands for every remaining kind of node (comparison, lambda, subscript,
  list, ...) with its children.
\<close>

datatype operator =
    Add | Sub | Mult | MatMult | Div | Mod | Pow
  | LShift | RShift | BitOr | BitXor | BitAnd | FloorDiv

datatype unaryop = Invert | Not | UAdd | USub

datatype expr =
    Num num
  | Constant
  | BinOp expr operator expr
  | UnaryOp unaryop expr
  | Name string
  | Call expr "expr list"
  | Attribute expr string
  | Other "expr list"

definition ALLOWED_OPS :: "operator \<rightharpoonup> (num \<Rightarrow> num \<Rightarrow> error + num)" where
  "ALLOWED_OPS = [Add \<mapsto> py_add, Sub \<mapsto> py_sub, Mult \<mapsto> py_mul, Div \<mapsto> py_truediv]"

text \<open>
  The inner function \<open>_eval\<close> of \<open>safe_eval\<close>. The operator is looked up before the
  operands are evaluated, the left operand before the right one.
\<close>

fun eval_node :: "expr \<Rightarrow> error + num" where
  "eval_node (Num n) = Inr n"
| "eval_node (BinOp l op r) =
     (case ALLOWED_OPS op of
        None \<Rightarrow> Inl (ValueError ''Invalid operator'')
      | Some f \<Rightarrow>
          (case eval_node l of
             Inl e \<Rightarrow> Inl e
           | Inr a \<Rightarrow>
               (case eval_node r of
                  Inl e \<Rightarrow> Inl e
                | Inr b \<Rightarrow> f a b)))"
| "eval_node node = Inl (ValueError ''Invalid expression'')"

text \<open>
  \<open>eval_node\<close> is \<open>_eval\<close> with frames to spare. Every call of \<open>_eval\<close> takes a frame of
  the interpreter's stack, and the interpreter raises \<open>RecursionError\<close> instead of
  entering a call beyond its recursion limit (1000 frames by default; the source does
  not change it). \<open>eval_frames n\<close> is \<open>_eval\<close> when \<open>n\<close> further nested calls of \<open>_eval\<close>
  are possible; \<open>n\<close> is below the recursion limit, since the server and \<open>safe_eval\<close>
  have frames of their own. \<open>depth\<close> is the number of nested calls that the evaluation
  of a tree needs at most.
\<close>

definition recursion_limit :: nat where
  "recursion_limit = 1000"

fun eval_frames :: "nat \<Rightarrow> expr \<Rightarrow> error + num" where
  "eval_frames 0 node = Inl RecursionError"
| "eval_frames (Suc n) (Num v) = Inr v"
| "eval_frames (Suc n) (BinOp l op r) =
     (case ALLOWED_OPS op of
        None \<Rightarrow> Inl (ValueError ''Invalid operator'')
      | Some f \<Rightarrow>
          (case eval_frames n l of
             Inl e \<Rightarrow> Inl e
           | Inr a \<Rightarrow>
               (case eval_frames n r of
                  Inl e \<Rightarrow> Inl e
                | Inr b \<Rightarrow> f a b)))"
| "eval_frames (Suc n) node = Inl (ValueError ''Invalid expression'')"

fun depth :: "expr \<Rightarrow> nat" where
  "depth (BinOp l op r) = Suc (max (depth l) (depth r))"
| "depth node = 1"

text \<open>
  The number of calls on the way to the leftmost leaf, which \<open>_eval\<close> reaches first.
\<close>

fun left_depth :: "expr \<Rightarrow> nat" where
  "left_depth (BinOp l op r) = (if ALLOWED_OPS op = None then 1 else Suc (left_depth l))"
| "left_depth node = 1"

section \<open>Python's parser on arithmetic text\<close>

text \<open>
  \<open>ast.parse(expr, mode="eval")\<close> is modelled on the texts that \<open>try_math\<close> passes to
  it: those over the digits, \<open>+ - * / .\<close> and the blank. On them Python's tokens are
  numbers, the operators \<open>+ - * / ** //\<close>, the dot and the ellipsis, and its grammar is
  \<^verbatim>\<open>
    sum:    term (('+' | '-') term)*
    term:   factor (('*' | '/' | '//') factor)*
    factor: ('+' | '-') factor | power
    power:  atom ['**' factor]
    atom:   NUMBER | '...'
  \<close>
  A decimal integer literal with a leading zero is rejected unless all its digits are
  zeros; a literal with a dot is a float, the nearest one to its decimal value. An
  integer literal of more than 4300 digits is refused with \<open>SyntaxError\<close>: this is the
  interpreter's default limit on the conversion between \<open>int\<close> and \<open>str\<close>, which the
  source does not change. The depth to which the parser can nest lies above the depth
  at which \<open>_eval\<close> runs out of frames (see \<open>eval_frames\<close>) and is not modelled.
\<close>

definition max_str_digits :: int where
  "max_str_digits = 4300"

fun digit_count :: "string \<Rightarrow> int" where
  "digit_count [] = 0"
| "digit_count (c # cs) = 1 + digit_count cs"

datatype token =
    TNum num | TPlus | TMinus | TStar | TSlash | TDoubleStar | TDoubleSlash | TDot | TEllipsis

definition digit_val :: "char \<Rightarrow> int" where
  "digit_val c = (case map_of (zip ''0123456789'' [0, 1, 2, 3, 4, 5, 6, 7, 8, 9]) c of
                    Some d \<Rightarrow> d | None \<Rightarrow> 0)"

definition digits_val :: "string \<Rightarrow> int" where
  "digits_val ds = foldl (\<lambda>acc c. 10 * acc + digit_val c) 0 ds"

definition int_literal :: "string \<Rightarrow> error + token" where
  "int_literal ds =
     (if starts_with ''0'' ds \<and> dropWhile (\<lambda>c. c = CHR ''0'') ds \<noteq> [] then Inl SyntaxError
      else if max_str_digits < digit_count ds then Inl SyntaxError
      else Inr (TNum (PyInt (digits_val ds))))"

definition float_literal :: "string \<Rightarrow> string \<Rightarrow> token" where
  "float_literal ip fp =
     TNum (PyFloat (round_double (of_int (digits_val (ip @ fp)) / 10 ^ length fp)))"

definition cons_token :: "error + token \<Rightarrow> error + token list \<Rightarrow> error + token list" where
  "cons_token t r =
     (case t of
        Inl e \<Rightarrow> Inl e
      | Inr x \<Rightarrow> (case r of Inl e \<Rightarrow> Inl e | Inr xs \<Rightarrow> Inr (x # xs)))"

function lex :: "string \<Rightarrow> error + token list" where
  "lex [] = Inr []"
| "lex (c # cs) =
     (if c = CHR '' '' then lex cs
      else if is_digit c then
        (case dropWhile is_digit cs of
           [] \<Rightarrow> cons_token (int_literal (c # takeWhile is_digit cs)) (Inr [])
         | d # r \<Rightarrow>
             if d = CHR ''.''
             then cons_token (Inr (float_literal (c # takeWhile is_digit cs) (takeWhile is_digit r)))
                    (lex (dropWhile is_digit r))
             else cons_token (int_literal (c # takeWhile is_digit cs)) (lex (d # r)))
      else if c = CHR ''.'' then
        (if list_ex is_digit (take 1 cs)
         then cons_token (Inr (float_literal [] (takeWhile is_digit cs))) (lex (dropWhile is_digit cs))
         else if starts_with ''..'' cs then cons_token (Inr TEllipsis) (lex (drop 2 cs))
         else cons_token (Inr TDot) (lex cs))
      else if c = CHR ''+'' then cons_token (Inr TPlus) (lex cs)
      else if c = CHR ''-'' then cons_token (Inr TMinus) (lex cs)
      else if c = CHR ''*'' then
        (if starts_with ''*'' cs then cons_token (Inr TDoubleStar) (lex (tl cs))
         else cons_token (Inr TStar) (lex cs))
      else if c = CHR ''/'' then
        (if starts_with ''/'' cs then cons_token (Inr TDoubleSlash) (lex (tl cs))
         else cons_token (Inr TSlash) (lex cs))
      else Inl SyntaxError)"
  by pat_completeness auto
termination
proof (relation "measure length", goal_cases)
  case 1
  show ?case by simp
next
  case (2 c cs)
  then show ?case by simp
next
  case (3 c cs d r)
  have "length (dropWhile is_digit r) \<le> length r" by (rule length_dropWhile_le)
  moreover have "length (d # r) \<le> length cs"
    using 3 length_dropWhile_le [of is_digit cs] by simp
  ultimately show ?case by simp
next
  case (4 c cs d r)
  have "length (d # r) \<le> length cs"
    using 4 length_dropWhile_le [of is_digit cs] by simp
  then show ?case by simp
next
  case (5 c cs)
  have "length (dropWhile is_digit cs) \<le> length cs" by (rule length_dropWhile_le)
  then show ?case by simp
next
  case (6 c cs)
  then show ?case by (cases cs) auto
qed (auto simp: neq_Nil_conv)

fun parse_atom :: "token \<Rightarrow> expr option" where
  "parse_atom (TNum n) = Some (Num n)"
| "parse_atom TEllipsis = Some Constant"
| "parse_atom t = None"

fun parse_factor :: "token list \<Rightarrow> (expr \<times> token list) option"
  and parse_power :: "token list \<Rightarrow> (expr \<times> token list) option" where
  "parse_factor (TPlus # ts) =
     (case parse_factor ts of None \<Rightarrow> None | Some (e, r) \<Rightarrow> Some (UnaryOp UAdd e, r))"
| "parse_factor (TMinus # ts) =
     (case parse_factor ts of None \<Rightarrow> None | Some (e, r) \<Rightarrow> Some (UnaryOp USub e, r))"
| "parse_factor ts = parse_power ts"
| "parse_power [] = None"
| "parse_power (t # TDoubleStar # ts) =
     (case parse_atom t of
        None \<Rightarrow> None
      | Some a \<Rightarrow>
          (case parse_factor ts of None \<Rightarrow> None | Some (e, r) \<Rightarrow> Some (BinOp a Pow e, r)))"
| "parse_power (t # ts) = (case parse_atom t of None \<Rightarrow> None | Some a \<Rightarrow> Some (a, ts))"

lemma parse_factor_power_shorter:
  "\<forall>e r. parse_factor ts = Some (e, r) \<longrightarrow> length r < length ts"
  "\<forall>e r. parse_power ts' = Some (e, r) \<longrightarrow> length r < length ts'"
proof (induction ts and ts' rule: parse_factor_parse_power.induct)
qed (force split: option.splits)+

lemma parse_factor_shorter: "parse_factor ts = Some (e, r) \<Longrightarrow> length r < length ts"
  using parse_factor_power_shorter(1) by blast

function (sequential) term_rest :: "expr \<Rightarrow> token list \<Rightarrow> (expr \<times> token list) option" where
  "term_rest acc (TStar # ts) =
     (case parse_factor ts of None \<Rightarrow> None | Some (e, r) \<Rightarrow> term_rest (BinOp acc Mult e) r)"
| "term_rest acc (TSlash # ts) =
     (case parse_factor ts of None \<Rightarrow> None | Some (e, r) \<Rightarrow> term_rest (BinOp acc Div e) r)"
| "term_rest acc (TDoubleSlash # ts) =
     (case parse_factor ts of None \<Rightarrow> None | Some (e, r) \<Rightarrow> term_rest (BinOp acc FloorDiv e) r)"
| "term_rest acc ts = Some (acc, ts)"
  by pat_completeness auto
termination
  by (relation "measure (\<lambda>(acc, ts). length ts)") (auto dest: parse_factor_shorter)

definition parse_term :: "token list \<Rightarrow> (expr \<times> token list) option" where
  "parse_term ts = (case parse_factor ts of None \<Rightarrow> None | Some (e, r) \<Rightarrow> term_rest e r)"

lemma term_rest_shorter: "term_rest acc ts = Some (e, r) \<Longrightarrow> length r \<le> length ts"
proof (induction acc ts arbitrary: e r rule: term_rest.induct)
  case (1 acc ts)
  then show ?case by (fastforce split: option.splits dest: parse_factor_shorter)
next
  case (2 acc ts)
  then show ?case by (fastforce split: option.splits dest: parse_factor_shorter)
next
  case (3 acc ts)
  then show ?case by (fastforce split: option.splits dest: parse_factor_shorter)
qed auto

lemma parse_term_shorter: "parse_term ts = Some (e, r) \<Longrightarrow> length r < length ts"
  unfolding parse_term_def
  by (fastforce split: option.splits dest: parse_factor_shorter term_rest_shorter)

function (sequential) sum_rest :: "expr \<Rightarrow> token list \<Rightarrow> (expr \<times> token list) option" where
  "sum_rest acc (TPlus # ts) =
     (case parse_term ts of None \<Rightarrow> None | Some (e, r) \<Rightarrow> sum_rest (BinOp acc Add e) r)"
| "sum_rest acc (TMinus # ts) =
     (case parse_term ts of None \<Rightarrow> None | Some (e, r) \<Rightarrow> sum_rest (BinOp acc Sub e) r)"
| "sum_rest acc ts = Some (acc, ts)"
  by pat_completeness auto
termination
  by (relation "measure (\<lambda>(acc, ts). length ts)") (auto dest: parse_term_shorter)

definition parse_sum :: "token list \<Rightarrow> (expr \<times> token list) option" where
  "parse_sum ts = (case parse_term ts of None \<Rightarrow> None | Some (e, r) \<Rightarrow> sum_rest e r)"

text \<open>
  The whole text has to be one expression. A text that begins with a blank is refused
  (Python reports an unexpected indent, a kind of syntax error); blanks elsewhere
  separate tokens.
\<close>

definition parse_math :: "string \<Rightarrow> error + expr" where
  "parse_math s =
     (if starts_with '' '' s then Inl SyntaxError
      else
        (case lex s of
           Inl e \<Rightarrow> Inl e
         | Inr ts \<Rightarrow>
             (case parse_sum ts of
                Some (e, []) \<Rightarrow> Inr e
              | _ \<Rightarrow> Inl SyntaxError)))"

definition math_char :: "char \<Rightarrow> bool" where
  "math_char c \<longleftrightarrow> c \<in> set ''0123456789+-*/. ''"

text \<open>
  \<open>ast.parse\<close>: on arithmetic text the parser above; on any other text Python's parser
  is a parameter \<open>py\<close>, about which nothing is assumed.
\<close>

definition ast_parse :: "(string \<Rightarrow> error + expr) \<Rightarrow> string \<Rightarrow> error + expr" where
  "ast_parse py s = (if list_all math_char s then parse_math s else py s)"

definition safe_eval :: "(string \<Rightarrow> error + expr) \<Rightarrow> string \<Rightarrow> error + num" where
  "safe_eval py expr =
     (case ast_parse py expr of
        Inl e \<Rightarrow> Inl e
      | Inr tree \<Rightarrow> eval_node tree)"

text \<open>\<open>safe_eval\<close> when \<open>n\<close> nested calls of \<open>_eval\<close> are possible.\<close>

definition safe_eval_frames :: "nat \<Rightarrow> (string \<Rightarrow> error + expr) \<Rightarrow> string \<Rightarrow> error + num" where
  "safe_eval_frames n py expr =
     (case ast_parse py expr of
        Inl e \<Rightarrow> Inl e
      | Inr tree \<Rightarrow> eval_frames n tree)"

section \<open>The math path\<close>

definition NUM_WORDS :: "(string \<times> int) list" where
  "NUM_WORDS =
     [(''zero'', 0), (''one'', 1), (''two'', 2), (''three'', 3), (''four'', 4),
      (''five'', 5), (''six'', 6), (''seven'', 7), (''eight'', 8), (''nine'', 9),
      (''ten'', 10), (''eleven'', 11), (''twelve'', 12)]"

definition OP_WORDS :: "(string \<times> string) list" where
  "OP_WORDS =
     [(''plus'', ''+''), (''minus'', ''-''), (''into'', ''*''), (''times'', ''*''),
      (''multiplied by'', ''*''), (''divide by'', ''/''), (''divided by'', ''/'')]"

text \<open>\<open>str\<close> of an \<open>int\<close>: its decimal digits, after a minus sign when it is negative.\<close>

definition digit_char :: "int \<Rightarrow> char" where
  "digit_char n = ''0123456789'' ! nat (n mod 10)"

function int_digits :: "int \<Rightarrow> string" where
  "int_digits n = (if n < 10 then [digit_char n] else int_digits (n div 10) @ [digit_char n])"
  by pat_completeness auto
termination
  by (relation "measure nat") auto

definition str_int :: "int \<Rightarrow> string" where
  "str_int i = (if i < 0 then CHR ''-'' # int_digits (- i) else int_digits i)"

definition words_to_numbers :: "string \<Rightarrow> string" where
  "words_to_numbers text =
     foldl (\<lambda>text (word, num). sub_word word (str_int num) text) text NUM_WORDS"

definition words_to_operators :: "string \<Rightarrow> string" where
  "words_to_operators text =
     foldl (\<lambda>text (word, op). replace word op text) (sub_x text) OP_WORDS"

text \<open>
  The gate of \<open>try_math\<close>: \<open>re.search\<close> finds an operator word, a digit or the letter x.
\<close>

definition math_cue :: "string \<Rightarrow> bool" where
  "math_cue t \<longleftrightarrow>
     list_ex (\<lambda>w. contains w t)
       [''plus'', ''minus'', ''into'', ''times'', ''multiply'', ''multiplied'',
        ''divide'', ''divided'', ''x'']
     \<or> list_ex is_digit t"

text \<open>\<open>re.sub(r"[^\d+\-*/. ]", "", t)\<close>: only arithmetic characters are kept.\<close>

definition keep_math :: "string \<Rightarrow> string" where
  "keep_math t = filter math_char t"

text \<open>
  The text that \<open>try_math\<close> hands to \<open>safe_eval\<close>: lower case, number words, operator
  words, the character filter, \<open>strip\<close>.
\<close>

definition math_text :: "string \<Rightarrow> string" where
  "math_text text = strip (keep_math (words_to_operators (words_to_numbers (lower text))))"

text \<open>
  The result as \<open>try_math\<close> formats it: a float that \<open>is_integer\<close> becomes an \<open>int\<close>
  first. \<open>repr\<close> of a finite float that is not printed as an integer is a parameter
  \<open>frepr\<close> (the shortest decimal that reads back as the same float). Formatting an
  \<open>int\<close> of more than 4300 digits raises \<open>ValueError\<close>.
\<close>

definition is_integer :: "pyfloat \<Rightarrow> bool" where
  "is_integer x = (case x of Fin a \<Rightarrow> of_int \<lfloor>a\<rfloor> = a | _ \<Rightarrow> False)"

definition int_of_float :: "pyfloat \<Rightarrow> int" where
  "int_of_float x = (case x of Fin a \<Rightarrow> \<lfloor>a\<rfloor> | _ \<Rightarrow> 0)"

definition integral_result :: "num \<Rightarrow> num" where
  "integral_result result =
     (case result of
        PyFloat x \<Rightarrow> if is_integer x then PyInt (int_of_float x) else result
      | _ \<Rightarrow> result)"

definition format_num :: "(rat \<Rightarrow> string) \<Rightarrow> num \<Rightarrow> error + string" where
  "format_num frepr n =
     (case n of
        PyInt i \<Rightarrow>
          if max_str_digits < digit_count (int_digits \<bar>i\<bar>)
          then Inl (ValueError ''Exceeds the limit for integer string conversion'')
          else Inr (str_int i)
      | PyFloat (Fin a) \<Rightarrow> Inr (frepr a)
      | PyFloat PInf \<Rightarrow> Inr ''inf''
      | PyFloat NInf \<Rightarrow> Inr ''-inf''
      | PyFloat NaN \<Rightarrow> Inr ''nan'')"

text \<open>
  What lies outside this program: Python's parser on other than arithmetic text, the
  \<open>repr\<close> of floats, the clock, the generative backend and the console. \<open>console line\<close>
  is the exception that \<open>print\<close> raises on this line, if any: \<open>UnicodeEncodeError\<close>
  when the encoding of the console has no code for a character of the line (UTF-8 has
  none for a lone surrogate, which \<open>json.loads\<close> lets through), \<open>ValueError\<close> when the
  console is closed.
\<close>

datatype weekday = Monday | Tuesday | Wednesday | Thursday | Friday | Saturday | Sunday

datatype month =
    January | February | March | April | May | June
  | July | August | September | October | November | December

record clock =
  hour :: nat
  minute :: nat
  day :: nat
  month_of :: month
  year :: nat
  weekday_of :: weekday

record env =
  py_parse :: "string \<Rightarrow> error + expr"
  float_repr :: "rat \<Rightarrow> string"
  now :: clock
  ollama_chat :: "string \<Rightarrow> error + string"
  console :: "string \<Rightarrow> error option"

text \<open>
  \<open>try_math\<close> of \<open>ai_server.py\<close>. Every exception of the evaluator and of the formatting
  is caught.
\<close>

definition try_math :: "env \<Rightarrow> string \<Rightarrow> string option" where
  "try_math env text =
     (let t = lower text in
      if \<not> math_cue t then None
      else
        let t = words_to_numbers t;
            t = words_to_operators t;
            t = strip (keep_math t)
        in (case safe_eval (py_parse env) t of
              Inl e \<Rightarrow> None
            | Inr result \<Rightarrow>
                (case format_num (float_repr env) (integral_result result) of
                   Inl e \<Rightarrow> None
                 | Inr shown \<Rightarrow> Some (''The answer is: '' @ shown @ ''.''))))"

text \<open>\<open>try_math\<close> of \<open>ai_server_2.py\<close>: the same but for the reply, which has no colon.\<close>

definition try_math_2 :: "env \<Rightarrow> string \<Rightarrow> string option" where
  "try_math_2 env text =
     (let t = lower text in
      if \<not> math_cue t then None
      else
        let t = words_to_numbers t;
            t = words_to_operators t;
            t = strip (keep_math t)
        in (case safe_eval (py_parse env) t of
              Inl e \<Rightarrow> None
            | Inr result \<Rightarrow>
                (case format_num (float_repr env) (integral_result result) of
                   Inl e \<Rightarrow> None
                 | Inr shown \<Rightarrow> Some (''The answer is '' @ shown @ ''.''))))"

section \<open>Intent resolution\<close>

text \<open>\<open>normalize_intent\<close>: lower case, \<open>strip\<close>, then every character outside \<open>\w\<close> and \<open>\s\<close> is deleted.\<close>

definition normalize_intent :: "string \<Rightarrow> string" where
  "normalize_intent text = filter (\<lambda>c. is_word_char c \<or> is_space c) (strip (lower text))"

text \<open>
  Punctuation is what \<open>normalize_intent\<close> deletes. Two texts are the same but for case
  and punctuation when they agree once the letters are in lower case and the
  punctuation is deleted.
\<close>

definition is_punct :: "char \<Rightarrow> bool" where
  "is_punct c \<longleftrightarrow> \<not> (is_word_char c \<or> is_space c)"

definition same_but_case_and_punct :: "string \<Rightarrow> string \<Rightarrow> bool" where
  "same_but_case_and_punct a b \<longleftrightarrow>
     filter (\<lambda>c. \<not> is_punct c) (lower a) = filter (\<lambda>c. \<not> is_punct c) (lower b)"

text \<open>
  \<open>normalize_intent\<close> strips before it deletes the punctuation, so white space that
  stands between the text and punctuation at one of its ends stays.
\<close>

definition bare_ends :: "string \<Rightarrow> bool" where
  "bare_ends text \<longleftrightarrow> strip (normalize_intent text) = normalize_intent text"

text \<open>
  \<open>re.search\<close> for a literal pattern that begins and ends with a letter. \<open>b\<close> asks for a
  word boundary before the pattern, \<open>e\<close> for one after it; \<open>prev\<close> says whether the
  character before the current position is a word character.
\<close>

definition match_here :: "bool \<Rightarrow> bool \<Rightarrow> bool \<Rightarrow> string \<Rightarrow> string \<Rightarrow> bool" where
  "match_here b e prev p s \<longleftrightarrow>
     \<not> (b \<and> prev) \<and> (if e then word_end p s else starts_with p s)"

fun search_from :: "bool \<Rightarrow> bool \<Rightarrow> bool \<Rightarrow> string \<Rightarrow> string \<Rightarrow> bool" where
  "search_from b e prev p [] = False"
| "search_from b e prev p (c # cs) =
     (match_here b e prev p (c # cs) \<or> search_from b e (is_word_char c) p cs)"

text \<open>\<open>\bp\b\<close>, \<open>\bp\<close> and \<open>p\b\<close>.\<close>

definition search_word :: "string \<Rightarrow> string \<Rightarrow> bool" where
  "search_word p t = search_from True True False p t"

definition search_word_start :: "string \<Rightarrow> string \<Rightarrow> bool" where
  "search_word_start p t = search_from True False False p t"

definition search_word_end :: "string \<Rightarrow> string \<Rightarrow> bool" where
  "search_word_end p t = search_from False True False p t"

text \<open>\<open>\bhello\s+(aarya|arya|aria)\b\<close> of \<open>ai_server_2.py\<close>.\<close>

definition hello_name_here :: "bool \<Rightarrow> string \<Rightarrow> bool" where
  "hello_name_here prev s \<longleftrightarrow>
     \<not> prev \<and> starts_with ''hello'' s \<and> list_ex is_space (take 1 (drop 5 s)) \<and>
     list_ex (\<lambda>n. word_end n (dropWhile is_space (drop 5 s))) [''aarya'', ''arya'', ''aria'']"

fun search_hello_name :: "bool \<Rightarrow> string \<Rightarrow> bool" where
  "search_hello_name prev [] = False"
| "search_hello_name prev (c # cs) =
     (hello_name_here prev (c # cs) \<or> search_hello_name (is_word_char c) cs)"

text \<open>
  \<open>datetime.now().strftime\<close> with the formats of the source, in the C locale: \<open>%I\<close>,
  \<open>%M\<close> and \<open>%d\<close> are two digits, \<open>%Y\<close> the digits of the year.
\<close>

definition pad2 :: "nat \<Rightarrow> string" where
  "pad2 n = (if n < 10 then CHR ''0'' # int_digits (int n) else int_digits (int n))"

definition hour12 :: "nat \<Rightarrow> nat" where
  "hour12 h = (if h mod 12 = 0 then 12 else h mod 12)"

definition am_pm :: "nat \<Rightarrow> string" where
  "am_pm h = (if h < 12 then ''AM'' else ''PM'')"

fun month_name :: "month \<Rightarrow> string" where
  "month_name January = ''January''"
| "month_name February = ''February''"
| "month_name March = ''March''"
| "month_name April = ''April''"
| "month_name May = ''May''"
| "month_name June = ''June''"
| "month_name July = ''July''"
| "month_name August = ''August''"
| "month_name September = ''September''"
| "month_name October = ''October''"
| "month_name November = ''November''"
| "month_name December = ''December''"

fun weekday_name :: "weekday \<Rightarrow> string" where
  "weekday_name Monday = ''Monday''"
| "weekday_name Tuesday = ''Tuesday''"
| "weekday_name Wednesday = ''Wednesday''"
| "weekday_name Thursday = ''Thursday''"
| "weekday_name Friday = ''Friday''"
| "weekday_name Saturday = ''Saturday''"
| "weekday_name Sunday = ''Sunday''"

definition time_reply :: "clock \<Rightarrow> string" where
  "time_reply c =
     ''The current time is '' @ pad2 (hour12 (hour c)) @ '':'' @ pad2 (minute c) @ '' ''
     @ am_pm (hour c) @ ''.''"

definition date_reply :: "clock \<Rightarrow> string" where
  "date_reply c =
     ''Today'' @ [CHR 0x27] @ ''s date is '' @ pad2 (day c) @ '' '' @ month_name (month_of c)
     @ '' '' @ int_digits (int (year c)) @ ''.''"

definition day_reply :: "clock \<Rightarrow> string" where
  "day_reply c = ''Today is '' @ weekday_name (weekday_of c) @ ''.''"

definition month_reply :: "clock \<Rightarrow> string" where
  "month_reply c = ''The current month is '' @ month_name (month_of c) @ ''.''"

definition year_reply :: "clock \<Rightarrow> string" where
  "year_reply c = ''The current year is '' @ int_digits (int (year c)) @ ''.''"

definition greetings :: "string list" where
  "greetings =
     concat (map (\<lambda>g. [g, g @ '' aarya'', g @ '' ariya''])
               [''hi'', ''hello'', ''hey'', ''namaste''])"

text \<open>The rules of \<open>local_answer\<close> in \<open>ai_server.py\<close>, on the normalised text, in order.\<close>

definition local_rules :: "clock \<Rightarrow> string \<Rightarrow> string option" where
  "local_rules c t =
     (if t \<in> set greetings then Some ''Hello, I am Aarya, how can I assist you today.''
      else if t = ''hello arya'' then Some ''Hello, I am Aarya, how can I assist you today.''
      else if search_word ''current time'' t \<or> search_word ''time now'' t
        then Some (time_reply c)
      else if search_word ''date today'' t \<or> search_word ''today date'' t
        then Some (date_reply c)
      else if search_word ''today day'' t \<or> search_word ''what day'' t
        then Some (day_reply c)
      else if search_word ''current month'' t then Some (month_reply c)
      else if search_word ''current year'' t then Some (year_reply c)
      else if search_word ''who are you'' t
        then Some ''I am Aarya, a humanoid receptionist robot developed by Ecruxbot.''
      else if search_word ''your name'' t then Some ''My name is Aarya.''
      else if search_word ''how are you'' t then Some ''I am fine, thank you for asking.''
      else if search_word ''features'' t
        then Some (''I can communicate through speech, answer visitor queries, ''
                   @ ''and showcase company technologies.'')
      else if search_word ''ecruxbot'' t
        then Some ''Ecruxbot is an Indian robotics and artificial intelligence company.''
      else if search_word ''tell me about your company'' t
              \<or> search_word ''about your company'' t \<or> search_word ''your company'' t
        then Some ''Ecruxbot is an Indian robotics and artificial intelligence company.''
      else if search_word ''team'' t
        then Some (''The Ecruxbot team includes Hitendra Valhe, Bhagyesh Tajne, ''
                   @ ''and Virendra Valhe.'')
      else if search_word ''website'' t then Some ''Our official website is ecruxbot.in.''
      else if search_word ''contact'' t \<or> search_word ''email'' t
        then Some ''You can contact Ecruxbot at ecruxbot@gmail.com.''
      else if search_word ''purpose'' t \<or> search_word ''why are you here'' t
        then Some ''I am designed to assist visitors and provide information.''
      else if search_word ''language'' t
        then Some (''I currently speak English and will support Hindi and Marathi ''
                   @ ''in the future.'')
      else if t \<in> set [''thanks'', ''thank you'', ''thank u''] then Some ''You are welcome.''
      else None)"

definition local_answer :: "clock \<Rightarrow> string \<Rightarrow> string option" where
  "local_answer c text = local_rules c (normalize_intent text)"

text \<open>The rules of \<open>local_answer\<close> in \<open>ai_server_2.py\<close>.\<close>

definition local_rules_2 :: "clock \<Rightarrow> string \<Rightarrow> string option" where
  "local_rules_2 c t =
     (if t \<in> set greetings then Some ''Hello! I am Aarya. How can I help you today?''
      else if search_word ''current time'' t \<or> search_word ''time now'' t
        then Some (time_reply c)
      else if search_word ''date today'' t \<or> search_word ''today date'' t
              \<or> search_word ''what is the date'' t
        then Some (date_reply c)
      else if search_word ''today day'' t \<or> search_word ''what day is it'' t
        then Some (day_reply c)
      else if search_hello_name False t then Some ''Hello! I am Aarya. How can I help you today?''
      else if search_word ''who are you'' t
        then Some ''I am Aarya, your friendly humanoid receptionist robot.''
      else if search_word ''your name'' t then Some ''My name is Aarya.''
      else if search_word ''ecruxbot'' t \<or> search_word ''your company'' t
              \<or> search_word ''about your company'' t
              \<or> search_word ''tell me about your company'' t
        then Some ''Ecruxbot is an Indian company creating robots and AI solutions for everyone''
      else if search_word ''your team'' t \<or> search_word ''tell me about your team'' t
              \<or> search_word ''who is in your team'' t
        then Some ''Our team consists of Hitendra Valhe, Virendra Valhe, and Bhagyesh Tajne.''
      else if search_word ''website'' t then Some ''You can visit our website at ecruxbot.in.''
      else if search_word_start ''location'' t \<or> search_word_end ''address'' t
        then Some (''Our office is at 2nd Floor, Near M. J. College, Jalgaon, ''
                   @ ''Maharashtra, India.'')
      else if search_word_start ''what can you do'' t \<or> contains ''services'' t
              \<or> search_word_end ''help'' t
        then Some (''I can answer questions, tell time, provide company info, ''
                   @ ''and chat with you.'')
      else if t \<in> set [''thanks'', ''thank you'', ''thank u''] then Some ''You are welcome! ''
      else if t \<in> set [''bye'', ''goodbye'', ''see you''] then Some ''Goodbye! Have a great day.''
      else None)"

definition local_answer_2 :: "clock \<Rightarrow> string \<Rightarrow> string option" where
  "local_answer_2 c text = local_rules_2 c (normalize_intent text)"

section \<open>The backend and the endpoint\<close>

text \<open>
  \<open>ollama_reply\<close>: the call \<open>ollama.chat\<close> (with the model and the system prompt of the
  file) and the reading of \<open>response["message"]["content"]\<close> are the parameter
  \<open>ollama_chat\<close>, which returns the content or the exception raised; the function has
  no handler, so the exception leaves it.
\<close>

definition ollama_reply :: "env \<Rightarrow> string \<Rightarrow> error + string" where
  "ollama_reply env prompt =
     (case ollama_chat env prompt of
        Inl e \<Rightarrow> Inl e
      | Inr content \<Rightarrow> Inr (strip content))"

text \<open>
  The request: no JSON body, a body that does not parse, or a parsed JSON value.
  \<open>request.get_json(silent=True)\<close> is \<open>None\<close> for the first two.
\<close>

datatype json =
    JNull
  | JBool bool
  | JNumber rat
  | JString string
  | JArray "json list"
  | JObject "(string \<times> json) list"

datatype body = NoBody | Unparseable string | Json json

definition get_json :: "body \<Rightarrow> json option" where
  "get_json b = (case b of Json j \<Rightarrow> Some j | _ \<Rightarrow> None)"

text \<open>Python's truth value of a parsed JSON value.\<close>

fun truthy :: "json \<Rightarrow> bool" where
  "truthy JNull = False"
| "truthy (JBool b) = b"
| "truthy (JNumber n) = (n \<noteq> 0)"
| "truthy (JString s) = (s \<noteq> [])"
| "truthy (JArray xs) = (xs \<noteq> [])"
| "truthy (JObject kvs) = (kvs \<noteq> [])"

text \<open>
  \<open>data = request.get_json(silent=True) or {}\<close> and
  \<open>user_text = data.get("text", "").strip()\<close>. Only a dict has \<open>get\<close> and only a
  string has \<open>strip\<close>; of a repeated key the JSON parser keeps the last value.
\<close>

definition request_data :: "body \<Rightarrow> json" where
  "request_data b =
     (case get_json b of
        None \<Rightarrow> JObject []
      | Some j \<Rightarrow> if truthy j then j else JObject [])"

fun is_object :: "json \<Rightarrow> bool" where
  "is_object (JObject kvs) = True"
| "is_object j = False"

definition user_text_of :: "body \<Rightarrow> error + string" where
  "user_text_of b =
     (case request_data b of
        JObject kvs \<Rightarrow>
          (case map_of (rev kvs) ''text'' of
             None \<Rightarrow> Inr (strip [])
           | Some (JString s) \<Rightarrow> Inr (strip s)
           | Some _ \<Rightarrow> Inl AttributeError)
      | _ \<Rightarrow> Inl AttributeError)"

text \<open>
  \<open>ask\<close> returns the reply, or the exception that leaves the handler, together with
  the stages it has called, in order. A reply of \<open>try_math\<close> or \<open>local_answer\<close> is
  taken when it is not \<open>None\<close>: the source tests its truth value, and neither function
  returns an empty string. \<open>ask\<close> and \<open>ask_2\<close> are the handlers on a console that takes
  every line; \<open>ask_logged\<close> and \<open>ask_2_logged\<close> below are the handlers with their
  \<open>print\<close> calls.
\<close>

datatype stage = MathPath | IntentResolver | Backend

definition ask :: "env \<Rightarrow> body \<Rightarrow> stage list \<times> (error + string)" where
  "ask env b =
     (case user_text_of b of
        Inl e \<Rightarrow> ([], Inl e)
      | Inr user_text \<Rightarrow>
          if user_text = [] then ([], Inr ''Please say something.'')
          else
            (case try_math env user_text of
               Some math_reply \<Rightarrow> ([MathPath], Inr math_reply)
             | None \<Rightarrow>
                 (case local_answer (now env) user_text of
                    Some reply \<Rightarrow> ([MathPath, IntentResolver], Inr reply)
                  | None \<Rightarrow>
                      ([MathPath, IntentResolver, Backend], ollama_reply env user_text))))"

definition ask_2 :: "env \<Rightarrow> body \<Rightarrow> stage list \<times> (error + string)" where
  "ask_2 env b =
     (case user_text_of b of
        Inl e \<Rightarrow> ([], Inl e)
      | Inr user_text \<Rightarrow>
          if user_text = [] then ([], Inr ''Please say something.'')
          else
            (case try_math_2 env user_text of
               Some math_reply \<Rightarrow> ([MathPath], Inr math_reply)
             | None \<Rightarrow>
                 (case local_answer_2 (now env) user_text of
                    Some reply \<Rightarrow> ([MathPath, IntentResolver], Inr reply)
                  | None \<Rightarrow>
                      ([MathPath, IntentResolver, Backend], ollama_reply env user_text))))"

text \<open>
  \<open>print\<close> of several lines, one after the other: the first exception ends it.
\<close>

fun print_all :: "(string \<Rightarrow> error option) \<Rightarrow> string list \<Rightarrow> error option" where
  "print_all out [] = None"
| "print_all out (l # ls) = (case out l of Some e \<Rightarrow> Some e | None \<Rightarrow> print_all out ls)"

definition user_line :: "string \<Rightarrow> string" where
  "user_line user_text = ''USER : '' @ user_text"

definition reply_line :: "string \<Rightarrow> string" where
  "reply_line reply = ''AARYA: '' @ reply"

definition rule_line :: string where
  "rule_line = replicate 40 (CHR ''-'')"

text \<open>
  \<open>ask\<close> of \<open>ai_server.py\<close> with its \<open>print\<close> calls: in every branch the three lines are
  printed once the reply is there and before it is returned.
\<close>

definition log_reply :: "env \<Rightarrow> string \<Rightarrow> string \<Rightarrow> error + string" where
  "log_reply env user_text reply =
     (case print_all (console env) [user_line user_text, reply_line reply, rule_line] of
        Some e \<Rightarrow> Inl e
      | None \<Rightarrow> Inr reply)"

definition ask_logged :: "env \<Rightarrow> body \<Rightarrow> stage list \<times> (error + string)" where
  "ask_logged env b =
     (case user_text_of b of
        Inl e \<Rightarrow> ([], Inl e)
      | Inr user_text \<Rightarrow>
          if user_text = [] then ([], log_reply env user_text ''Please say something.'')
          else
            (case try_math env user_text of
               Some math_reply \<Rightarrow> ([MathPath], log_reply env user_text math_reply)
             | None \<Rightarrow>
                 (case local_answer (now env) user_text of
                    Some reply \<Rightarrow> ([MathPath, IntentResolver], log_reply env user_text reply)
                  | None \<Rightarrow>
                      ([MathPath, IntentResolver, Backend],
                       case ollama_reply env user_text of
                         Inl e \<Rightarrow> Inl e
                       | Inr reply \<Rightarrow> log_reply env user_text reply))))"

text \<open>
  \<open>ask\<close> of \<open>ai_server_2.py\<close> with its \<open>print\<close> calls: the user's line is printed
  before anything else is done with the text, the other two lines in every branch once
  the reply is there.
\<close>

definition log_reply_2 :: "env \<Rightarrow> string \<Rightarrow> error + string" where
  "log_reply_2 env reply =
     (case print_all (console env) [reply_line reply, rule_line] of
        Some e \<Rightarrow> Inl e
      | None \<Rightarrow> Inr reply)"

definition ask_2_logged :: "env \<Rightarrow> body \<Rightarrow> stage list \<times> (error + string)" where
  "ask_2_logged env b =
     (case user_text_of b of
        Inl e \<Rightarrow> ([], Inl e)
      | Inr user_text \<Rightarrow>
          (case console env (user_line user_text) of
             Some e \<Rightarrow> ([], Inl e)
           | None \<Rightarrow>
               if user_text = [] then ([], log_reply_2 env ''Please say something.'')
               else
                 (case try_math_2 env user_text of
                    Some math_reply \<Rightarrow> ([MathPath], log_reply_2 env math_reply)
                  | None \<Rightarrow>
                      (case local_answer_2 (now env) user_text of
                         Some reply \<Rightarrow> ([MathPath, IntentResolver], log_reply_2 env reply)
                       | None \<Rightarrow>
                           ([MathPath, IntentResolver, Backend],
                            case ollama_reply env user_text of
                              Inl e \<Rightarrow> Inl e
                            | Inr reply \<Rightarrow> log_reply_2 env reply)))))"

text \<open>
  The server: Flask calls the view function \<open>ask\<close> once for every request to \<open>/ask\<close>.
  A reply is sent as the JSON object \<open>{"reply": reply}\<close> with status 200; an exception
  that leaves the view function is caught by Flask, which answers this request with
  status 500 and goes on serving. The module keeps nothing between two requests, so a
  request is answered from its own body and the environment at its time.
\<close>

datatype response = Status200 string | Status500

definition dispatch :: "stage list \<times> (error + string) \<Rightarrow> response" where
  "dispatch outcome = (case snd outcome of Inr reply \<Rightarrow> Status200 reply | Inl e \<Rightarrow> Status500)"

definition serve ::
  "(env \<Rightarrow> body \<Rightarrow> stage list \<times> (error + string)) \<Rightarrow> (env \<times> body) list \<Rightarrow> response list"
where
  "serve view requests = map (\<lambda>(env, b). dispatch (view env b)) requests"

text \<open>A console whose encoding is ASCII.\<close>

definition ascii_console :: "string \<Rightarrow> error option" where
  "ascii_console line =
     (if list_all (\<lambda>c. of_char c < (128 :: nat)) line then None else Some UnicodeEncodeError)"

text \<open>
  A concrete environment for examples: the parser parameter refuses every text, the
  clock stands at 13:05 on Wednesday 4 November 2026, the backend is down and the
  console takes every line.
\<close>

definition sample_env :: env where
  "sample_env =
     \<lparr>py_parse = (\<lambda>s. Inl SyntaxError),
      float_repr = (\<lambda>r. ''?''),
      now = \<lparr>hour = 13, minute = 5, day = 4, month_of = November, year = 2026,
             weekday_of = Wednesday\<rparr>,
      ollama_chat = (\<lambda>prompt. Inl BackendError),
      console = (\<lambda>line. None)\<rparr>"

text \<open>The request whose JSON body is \<open>{"text": s}\<close>.\<close>

definition text_request :: "string \<Rightarrow> body" where
  "text_request s = Json (JObject [(''text'', JString s)])"

text \<open>
  \<open>arithmetic tree\<close>: the tree consists of numeric literals and the four whitelisted
  operators only. \<open>arith_value\<close> computes such a tree with \<open>operator.add\<close>,
  \<open>operator.sub\<close>, \<open>operator.mul\<close> and \<open>operator.truediv\<close> and nothing else.
\<close>

fun arithmetic :: "expr \<Rightarrow> bool" where
  "arithmetic (Num n) = True"
| "arithmetic (BinOp l op r) = (op \<in> {Add, Sub, Mult, Div} \<and> arithmetic l \<and> arithmetic r)"
| "arithmetic node = False"

fun arith_value :: "expr \<Rightarrow> error + num" where
  "arith_value (Num n) = Inr n"
| "arith_value (BinOp l op r) =
     (case arith_value l of
        Inl e \<Rightarrow> Inl e
      | Inr a \<Rightarrow>
          (case arith_value r of
             Inl e \<Rightarrow> Inl e
           | Inr b \<Rightarrow>
               (case op of
                  Add \<Rightarrow> py_add a b
                | Sub \<Rightarrow> py_sub a b
                | Mult \<Rightarrow> py_mul a b
                | Div \<Rightarrow> py_truediv a b
                | _ \<Rightarrow> Inl (ValueError ''Invalid operator''))))"
| "arith_value node = Inl (ValueError ''Invalid expression'')"

text \<open>\<open>zero_division_in tree\<close>: somewhere in the tree a division has a divisor that evaluates to zero.\<close>

fun zero_division_in :: "expr \<Rightarrow> bool" where
  "zero_division_in (BinOp l op r) =
     ((op = Div \<and> (case eval_node r of Inr z \<Rightarrow> is_zero z | Inl e \<Rightarrow> False))
      \<or> zero_division_in l \<or> zero_division_in r)"
| "zero_division_in node = False"





















text \<open>
  \<open>flat_tokens\<close>: the tokens are numbers separated by single operators \<open>+ - * /\<close>.
\<close>

fun op_steps :: "token list \<Rightarrow> bool" where
  "op_steps [] = True"
| "op_steps (t # TNum v # ts) = (t \<in> {TPlus, TMinus, TStar, TSlash} \<and> op_steps ts)"
| "op_steps ts = False"

fun flat_tokens :: "token list \<Rightarrow> bool" where
  "flat_tokens (TNum v # ts) = op_steps ts"
| "flat_tokens ts = False"












section \<open>Properties\<close>

subsection \<open>Auxiliary facts\<close>

subsubsection \<open>The math path and the request\<close>

lemma try_math_eq:
  "try_math env t =
     (if \<not> math_cue (lower t) then None
      else case safe_eval (py_parse env) (math_text t) of
             Inl e \<Rightarrow> None
           | Inr result \<Rightarrow>
               (case format_num (float_repr env) (integral_result result) of
                  Inl e \<Rightarrow> None
                | Inr shown \<Rightarrow> Some (''The answer is: '' @ shown @ ''.'')))"
  by (simp add: try_math_def math_text_def Let_def)

lemma try_math_2_eq:
  "try_math_2 env t =
     (if \<not> math_cue (lower t) then None
      else case safe_eval (py_parse env) (math_text t) of
             Inl e \<Rightarrow> None
           | Inr result \<Rightarrow>
               (case format_num (float_repr env) (integral_result result) of
                  Inl e \<Rightarrow> None
                | Inr shown \<Rightarrow> Some (''The answer is '' @ shown @ ''.'')))"
  by (simp add: try_math_2_def math_text_def Let_def)

text \<open>
  Neither \<open>try_math\<close> nor \<open>local_answer\<close> returns the empty string, so the tests
  \<open>if math_reply:\<close> and \<open>if reply:\<close> of \<open>ask\<close> are tests for \<open>None\<close>.
\<close>

lemma try_math_truthy: "try_math env t \<noteq> Some []" "try_math_2 env t \<noteq> Some []"
  by (simp_all add: try_math_eq try_math_2_eq split: sum.splits)

lemma local_answer_truthy: "local_answer c t \<noteq> Some []" "local_answer_2 c t \<noteq> Some []"
  by (simp_all add: local_answer_def local_answer_2_def local_rules_def local_rules_2_def
        time_reply_def date_reply_def day_reply_def month_reply_def year_reply_def)



subsubsection \<open>The binary exponent of a rational\<close>

lemma pow2_power_int: "pow2 e = power_int 2 e"
  by (simp add: pow2_def power_int_def inverse_eq_divide power_one_over)

lemma pow2_pos: "0 < pow2 e"
  by (simp add: pow2_power_int)

lemma of_int_pow_le:
  fixes p :: int
  assumes "0 \<le> k" "2 ^ nat k \<le> p"
  shows "power_int 2 k \<le> (of_int p :: rat)"
proof -
  have "(of_int (2 ^ nat k) :: rat) \<le> of_int p" using assms(2) by (simp only: of_int_le_iff)
  then show ?thesis using assms(1) by (simp add: power_int_def)
qed

lemma of_int_less_pow:
  fixes p :: int
  assumes "0 \<le> k" "p < 2 ^ nat k"
  shows "(of_int p :: rat) < power_int 2 k"
proof -
  have "(of_int p :: rat) < of_int (2 ^ nat k)" using assms(2) by (simp only: of_int_less_iff)
  then show ?thesis using assms(1) by (simp add: power_int_def)
qed

lemma ilog2_bounds:
  assumes "0 < r"
  shows "pow2 (ilog2 r) \<le> r \<and> r < pow2 (ilog2 r + 1)"
proof -
  obtain p q where pq: "quotient_of r = (p, q)" by (cases "quotient_of r")
  have q: "0 < q" using pq by (rule quotient_of_denom_pos)
  have r: "r = of_int p / of_int q" using pq by (rule quotient_of_div)
  have p: "0 < p" using assms q r by (simp add: zero_less_divide_iff)
  define d where "d = bitlen p - bitlen q"
  have p1: "1 \<le> bitlen p" and q1: "1 \<le> bitlen q"
    using p q by (auto simp: bitlen_alt_def)
  have Bp1: "power_int 2 (bitlen p - 1) \<le> (of_int p :: rat)"
    using bitlen_bounds [OF p] p1 by (intro of_int_pow_le) auto
  have Bp2: "(of_int p :: rat) < power_int 2 (bitlen p)"
    using bitlen_bounds [OF p] p1 by (intro of_int_less_pow) auto
  have Bq1: "power_int 2 (bitlen q - 1) \<le> (of_int q :: rat)"
    using bitlen_bounds [OF q] q1 by (intro of_int_pow_le) auto
  have Bq2: "(of_int q :: rat) < power_int 2 (bitlen q)"
    using bitlen_bounds [OF q] q1 by (intro of_int_less_pow) auto
  have Q: "(0::rat) < of_int q" using q by simp
  have up: "r < pow2 (d + 1)"
  proof -
    have "power_int 2 (d + 1) * power_int (2::rat) (bitlen q - 1) = power_int 2 (bitlen p)"
      by (simp add: d_def power_int_add [symmetric])
    then have "of_int p < power_int 2 (d + 1) * power_int (2::rat) (bitlen q - 1)"
      using Bp2 by simp
    also have "\<dots> \<le> power_int 2 (d + 1) * of_int q"
      using Bq1 by (intro mult_left_mono) simp_all
    finally have "r < power_int 2 (d + 1)"
      using Q by (simp add: r pos_divide_less_eq)
    then show ?thesis by (simp add: pow2_power_int)
  qed
  have lo: "pow2 (d - 1) \<le> r"
  proof -
    have e: "power_int 2 (d - 1) * power_int (2::rat) (bitlen q) = power_int 2 (bitlen p - 1)"
      by (simp add: d_def power_int_add [symmetric])
    have "power_int 2 (d - 1) * of_int q \<le> power_int 2 (d - 1) * power_int (2::rat) (bitlen q)"
      using Bq2 by (intro mult_left_mono) simp_all
    also have "\<dots> \<le> of_int p" using Bp1 e by simp
    finally have "power_int 2 (d - 1) \<le> r"
      using Q by (simp add: r pos_le_divide_eq)
    then show ?thesis by (simp add: pow2_power_int)
  qed
  show ?thesis
  proof (cases "pow2 d \<le> r")
    case True
    then have "ilog2 r = d" by (simp add: ilog2_def pq d_def)
    then show ?thesis using True up by simp
  next
    case False
    then have "ilog2 r = d - 1" by (simp add: ilog2_def pq d_def)
    then show ?thesis using False lo by simp
  qed
qed

lemma ilog2_unique:
  assumes "pow2 e \<le> r" and "r < pow2 (e + 1)"
  shows "ilog2 r = e"
proof -
  have r: "0 < r" using assms(1) pow2_pos [of e] by simp
  note b = ilog2_bounds [OF r]
  have "\<not> ilog2 r < e"
  proof
    assume "ilog2 r < e"
    then have "pow2 (ilog2 r + 1) \<le> pow2 e"
      unfolding pow2_power_int by (intro power_int_increasing) simp_all
    then show False using b assms by simp
  qed
  moreover have "\<not> e < ilog2 r"
  proof
    assume "e < ilog2 r"
    then have "pow2 (e + 1) \<le> pow2 (ilog2 r)"
      unfolding pow2_power_int by (intro power_int_increasing) simp_all
    then show False using b assms by simp
  qed
  ultimately show ?thesis by simp
qed


subsubsection \<open>Evaluation of trees\<close>

lemma round_double_0: "round_double 0 = Fin 0"
  by (simp add: round_double_def)

lemma eval_node_value:
  "eval_node t = Inr v \<Longrightarrow> arithmetic t \<and> arith_value t = Inr v"
proof (induction t arbitrary: v)
  case (BinOp l op r)
  then show ?case
    by (cases op) (auto simp: ALLOWED_OPS_def split: sum.splits)
qed simp_all

lemma truediv_zero:
  "is_zero z \<Longrightarrow>
   py_truediv a z =
     Inl (if z = PyFloat (Fin 0) \<and> as_float a = Inl OverflowError then OverflowError
          else ZeroDivisionError)"
  by (cases a; cases z)
     (auto simp: is_zero_def as_float_def round_double_0 split: pyfloat.splits sum.splits)

lemma zero_division_in_error: "zero_division_in t \<Longrightarrow> \<exists>e. eval_node t = Inl e"
proof (induction t)
  case (BinOp l op r)
  show ?case
  proof (cases "eval_node (BinOp l op r)")
    case (Inl e)
    then show ?thesis by blast
  next
    case (Inr v)
    then obtain a b where l: "eval_node l = Inr a" and r: "eval_node r = Inr b"
      and f: "ALLOWED_OPS op \<noteq> None"
      by (auto split: option.splits sum.splits)
    from BinOp l r have "op = Div" and "is_zero b" by auto
    then have "eval_node (BinOp l op r) = py_truediv a b"
      using l r by (simp add: ALLOWED_OPS_def)
    then show ?thesis using truediv_zero [OF \<open>is_zero b\<close>, of a] by simp
  qed
qed simp_all

subsubsection \<open>The normalised text\<close>

lemma dropWhile_last: "dropWhile P xs \<noteq> [] \<Longrightarrow> last (dropWhile P xs) = last xs"
  by (induction xs) auto

lemma strip_ends: "strip s = [] \<or> (\<not> is_space (hd (strip s)) \<and> \<not> is_space (last (strip s)))"
proof (cases "strip s = []")
  case False
  define a where "a = dropWhile is_space s"
  define b where "b = dropWhile is_space (rev a)"
  have s: "strip s = rev b" by (simp add: strip_def a_def b_def)
  have b: "b \<noteq> []" using False s by simp
  then have a: "a \<noteq> []" by (auto simp: b_def)
  have "\<not> is_space (hd b)" using b unfolding b_def by (rule hd_dropWhile)
  then have 1: "\<not> is_space (last (strip s))" using b by (simp add: s last_rev)
  have "last b = last (rev a)" using b unfolding b_def by (rule dropWhile_last)
  also have "\<dots> = hd a" using a by (simp add: last_rev)
  finally have "hd (strip s) = hd a" using b by (simp add: s hd_rev)
  moreover have "\<not> is_space (hd a)" using a unfolding a_def by (rule hd_dropWhile)
  ultimately show ?thesis using 1 by simp
qed simp

lemma dropWhile_id: "xs = [] \<or> \<not> P (hd xs) \<Longrightarrow> dropWhile P xs = xs"
  by (cases xs) auto

lemma strip_fixed:
  assumes "s = [] \<or> (\<not> is_space (hd s) \<and> \<not> is_space (last s))"
  shows "strip s = s"
proof (cases "s = []")
  case False
  then have "dropWhile is_space s = s" using assms by (intro dropWhile_id) simp
  moreover have "dropWhile is_space (rev s) = rev s"
    using assms False by (intro dropWhile_id) (simp add: hd_rev)
  ultimately show ?thesis by (simp add: strip_def)
qed (simp add: strip_def)

lemma strip_strip: "strip (strip s) = strip s"
  by (rule strip_fixed) (rule strip_ends)

lemma set_strip: "set (strip s) \<subseteq> set s"
proof -
  have "set (strip s) \<subseteq> set (dropWhile is_space s)"
    unfolding strip_def using set_dropWhileD by fastforce
  then show ?thesis using set_dropWhileD by fastforce
qed

lemma math_text_chars: "list_all math_char (math_text s)"
  using set_strip [of "keep_math (words_to_operators (words_to_numbers (lower s)))"]
  by (auto simp: math_text_def keep_math_def list_all_iff)

lemma lower_char_id: "\<not> is_upper c \<Longrightarrow> lower_char c = c"
proof -
  assume "\<not> is_upper c"
  then have "c \<notin> fst ` set (zip ''ABCDEFGHIJKLMNOPQRSTUVWXYZ'' ''abcdefghijklmnopqrstuvwxyz'')"
    by (auto simp: is_upper_def dest: set_zip_leftD)
  then have "map_of (zip ''ABCDEFGHIJKLMNOPQRSTUVWXYZ'' ''abcdefghijklmnopqrstuvwxyz'') c = None"
    unfolding map_of_eq_None_iff .
  then show ?thesis by (simp only: lower_char_def option.case)
qed

lemma math_char_not_upper: "math_char c \<Longrightarrow> \<not> is_upper c"
  by (auto simp: math_char_def is_upper_def)

lemma lower_math: "list_all math_char u \<Longrightarrow> lower u = u"
  by (simp add: lower_def list_all_iff map_idI lower_char_id math_char_not_upper)

lemma starts_with_hd: "starts_with w (c # cs) \<Longrightarrow> w \<noteq> [] \<Longrightarrow> hd w = c"
  by (cases w) auto

lemma sub_word_from_math:
  "list_all math_char u \<Longrightarrow> \<not> math_char (hd w) \<Longrightarrow> sub_word_from prev w r u = u"
proof (induction u arbitrary: prev)
  case (Cons c cs)
  have "\<not> (w \<noteq> [] \<and> word_end w (c # cs))"
    using Cons.prems starts_with_hd [of w c cs] by (auto simp: word_end_def)
  then show ?case using Cons by auto
qed simp

lemma words_to_numbers_math: "list_all math_char u \<Longrightarrow> words_to_numbers u = u"
  by (simp add: words_to_numbers_def NUM_WORDS_def sub_word_def sub_word_from_math math_char_def)

lemma x_match_math:
  assumes "list_all math_char cs"
  shows "x_match cs = None"
proof (cases "dropWhile is_space cs")
  case Nil
  show ?thesis unfolding x_match_def Nil by simp
next
  case (Cons c r)
  have "c \<in> set (dropWhile is_space cs)" by (simp add: Cons)
  then have "c \<in> set cs" by (rule set_dropWhileD)
  then have "math_char c" using assms by (simp add: list_all_iff)
  then have "c \<noteq> CHR ''x''" by (auto simp: math_char_def)
  then show ?thesis unfolding x_match_def Cons by simp
qed

lemma sub_x_math: "list_all math_char u \<Longrightarrow> sub_x u = u"
  by (induction u) (simp_all add: x_match_math)

lemma replace_math:
  "list_all math_char u \<Longrightarrow> \<not> math_char (hd old) \<Longrightarrow> replace old new u = u"
proof (induction u)
  case (Cons c cs)
  have "\<not> (old \<noteq> [] \<and> starts_with old (c # cs))"
    using Cons.prems starts_with_hd [of old c cs] by auto
  then show ?case using Cons by auto
qed simp

lemma words_to_operators_math: "list_all math_char u \<Longrightarrow> words_to_operators u = u"
  by (simp add: words_to_operators_def OP_WORDS_def sub_x_math replace_math math_char_def)

lemma keep_math_math: "list_all math_char u \<Longrightarrow> keep_math u = u"
  by (simp add: keep_math_def list_all_iff)

subsubsection \<open>Tokens of a written expression\<close>





























subsubsection \<open>Parsing the tokens of a written expression\<close>
























subsubsection \<open>Token lists that parse to an arithmetic tree\<close>

lemma parse_power_arith:
  "parse_power ts = Some (e, r) \<Longrightarrow> arithmetic e \<Longrightarrow> \<exists>v. ts = TNum v # r \<and> e = Num v"
proof (cases ts)
  case Nil
  assume "parse_power ts = Some (e, r)"
  then show ?thesis using Nil by simp
next
  case (Cons t ts')
  assume a: "parse_power ts = Some (e, r)" and b: "arithmetic e"
  show ?thesis
  proof (cases "\<exists>ts''. ts' = TDoubleStar # ts''")
    case True
    then show ?thesis using a b Cons by (auto split: option.splits)
  next
    case False
    have "parse_power (t # ts') = (case parse_atom t of None \<Rightarrow> None | Some a \<Rightarrow> Some (a, ts'))"
    proof (cases ts')
      case Nil
      show ?thesis unfolding Nil by simp
    next
      case (Cons t' ts'')
      then have "t' \<noteq> TDoubleStar" using False by simp
      then show ?thesis unfolding Cons by (cases t') auto
    qed
    then show ?thesis using a b Cons by (cases t) (auto split: option.splits)
  qed
qed

lemma parse_factor_arith:
  "parse_factor ts = Some (e, r) \<Longrightarrow> arithmetic e \<Longrightarrow> \<exists>v. ts = TNum v # r \<and> e = Num v"
proof (cases ts)
  case Nil
  assume "parse_factor ts = Some (e, r)"
  then show ?thesis using Nil by simp
next
  case (Cons t ts')
  assume a: "parse_factor ts = Some (e, r)" and b: "arithmetic e"
  show ?thesis
  proof (cases "t = TPlus \<or> t = TMinus")
    case True
    then show ?thesis using a b Cons by (auto split: option.splits)
  next
    case False
    then have "parse_factor (t # ts') = parse_power (t # ts')" by (cases t) simp_all
    then show ?thesis using a b Cons parse_power_arith [of "t # ts'" e r] by simp
  qed
qed

lemma op_steps_append: "op_steps a \<Longrightarrow> op_steps b \<Longrightarrow> op_steps (a @ b)"
  by (induction a rule: op_steps.induct) simp_all

lemma term_rest_arith:
  "term_rest acc ts = Some (e, r) \<Longrightarrow> arithmetic e \<Longrightarrow>
   arithmetic acc \<and> (\<exists>steps. ts = steps @ r \<and> op_steps steps)"
proof (induction acc ts arbitrary: e r rule: term_rest.induct)
  case (1 acc ts)
  then obtain f r' where f: "parse_factor ts = Some (f, r')"
    and t: "term_rest (BinOp acc Mult f) r' = Some (e, r)"
    by (auto split: option.splits)
  from 1(1) [OF f refl t 1(3)] obtain steps where
    a: "arithmetic acc" "arithmetic f" and s: "r' = steps @ r" "op_steps steps" by auto
  from parse_factor_arith [OF f a(2)] obtain v where "ts = TNum v # r'" by blast
  then have "TStar # ts = (TStar # TNum v # steps) @ r \<and> op_steps (TStar # TNum v # steps)"
    using s by simp
  then show ?case using a(1) by blast
next
  case (2 acc ts)
  then obtain f r' where f: "parse_factor ts = Some (f, r')"
    and t: "term_rest (BinOp acc Div f) r' = Some (e, r)"
    by (auto split: option.splits)
  from 2(1) [OF f refl t 2(3)] obtain steps where
    a: "arithmetic acc" "arithmetic f" and s: "r' = steps @ r" "op_steps steps" by auto
  from parse_factor_arith [OF f a(2)] obtain v where "ts = TNum v # r'" by blast
  then have "TSlash # ts = (TSlash # TNum v # steps) @ r \<and> op_steps (TSlash # TNum v # steps)"
    using s by simp
  then show ?case using a(1) by blast
next
  case (3 acc ts)
  then obtain f r' where f: "parse_factor ts = Some (f, r')"
    and t: "term_rest (BinOp acc FloorDiv f) r' = Some (e, r)"
    by (auto split: option.splits)
  from 3(1) [OF f refl t 3(3)] show ?case by simp
qed (auto intro: exI [of _ "[]"])

lemma parse_term_arith:
  assumes "parse_term ts = Some (e, r)" and "arithmetic e"
  shows "\<exists>v steps. ts = TNum v # steps @ r \<and> op_steps steps"
proof -
  obtain f r' where f: "parse_factor ts = Some (f, r')" and t: "term_rest f r' = Some (e, r)"
    using assms(1) by (auto simp: parse_term_def split: option.splits)
  from term_rest_arith [OF t assms(2)] obtain steps where
    a: "arithmetic f" and s: "r' = steps @ r" "op_steps steps" by auto
  from parse_factor_arith [OF f a] obtain v where "ts = TNum v # r'" by blast
  then show ?thesis using s by blast
qed

lemma sum_rest_arith:
  "sum_rest acc ts = Some (e, r) \<Longrightarrow> arithmetic e \<Longrightarrow>
   arithmetic acc \<and> (\<exists>steps. ts = steps @ r \<and> op_steps steps)"
proof (induction acc ts arbitrary: e r rule: sum_rest.induct)
  case (1 acc ts)
  then obtain f r' where f: "parse_term ts = Some (f, r')"
    and t: "sum_rest (BinOp acc Add f) r' = Some (e, r)"
    by (auto split: option.splits)
  from 1(1) [OF f refl t 1(3)] obtain steps where
    a: "arithmetic acc" "arithmetic f" and s: "r' = steps @ r" "op_steps steps" by auto
  from parse_term_arith [OF f a(2)] obtain v steps' where
    v: "ts = TNum v # steps' @ r'" "op_steps steps'" by blast
  have "TPlus # ts = (TPlus # TNum v # steps' @ steps) @ r"
    using v s by simp
  moreover have "op_steps (TPlus # TNum v # steps' @ steps)"
    using v s by (simp add: op_steps_append)
  ultimately show ?case using a(1) by blast
next
  case (2 acc ts)
  then obtain f r' where f: "parse_term ts = Some (f, r')"
    and t: "sum_rest (BinOp acc Sub f) r' = Some (e, r)"
    by (auto split: option.splits)
  from 2(1) [OF f refl t 2(3)] obtain steps where
    a: "arithmetic acc" "arithmetic f" and s: "r' = steps @ r" "op_steps steps" by auto
  from parse_term_arith [OF f a(2)] obtain v steps' where
    v: "ts = TNum v # steps' @ r'" "op_steps steps'" by blast
  have "TMinus # ts = (TMinus # TNum v # steps' @ steps) @ r"
    using v s by simp
  moreover have "op_steps (TMinus # TNum v # steps' @ steps)"
    using v s by (simp add: op_steps_append)
  ultimately show ?case using a(1) by blast
qed (auto intro: exI [of _ "[]"])

lemma parse_sum_arith:
  assumes "parse_sum ts = Some (e, [])" and "arithmetic e"
  shows "flat_tokens ts"
proof -
  obtain f r' where f: "parse_term ts = Some (f, r')" and t: "sum_rest f r' = Some (e, [])"
    using assms(1) by (auto simp: parse_sum_def split: option.splits)
  from sum_rest_arith [OF t assms(2)] have a: "arithmetic f" and s: "op_steps r'" by auto
  from parse_term_arith [OF f a] obtain v steps where
    "ts = TNum v # steps @ r'" "op_steps steps" by blast
  then show ?thesis using s by (simp add: op_steps_append)
qed

subsubsection \<open>A large dividend\<close>

text \<open>A dividend of 309 digits, too large for a float, and its tokens before \<open>/0.0\<close>.\<close>

lemma as_float_big:
  "as_float (PyInt 200000000000000000000000000000000000000000000000000000000000000000000000000000000000000000000000000000000000000000000000000000000000000000000000000000000000000000000000000000000000000000000000000000000000000000000000000000000000000000000000000000000000000000000000000000000000000000000000000000000000000000000)
     = Inl OverflowError"
proof -
  have "ilog2 200000000000000000000000000000000000000000000000000000000000000000000000000000000000000000000000000000000000000000000000000000000000000000000000000000000000000000000000000000000000000000000000000000000000000000000000000000000000000000000000000000000000000000000000000000000000000000000000000000000000000000000 = 1024"
    by (rule ilog2_unique) (simp_all add: pow2_def)
  then show ?thesis
    by (simp add: as_float_def round_double_def)
qed

lemma lex_big:
  "lex ''200000000000000000000000000000000000000000000000000000000000000000000000000000000000000000000000000000000000000000000000000000000000000000000000000000000000000000000000000000000000000000000000000000000000000000000000000000000000000000000000000000000000000000000000000000000000000000000000000000000000000000000/0.0''
     = Inr [TNum (PyInt 200000000000000000000000000000000000000000000000000000000000000000000000000000000000000000000000000000000000000000000000000000000000000000000000000000000000000000000000000000000000000000000000000000000000000000000000000000000000000000000000000000000000000000000000000000000000000000000000000000000000000000000),
            TSlash, TNum (PyFloat (Fin 0))]"
  by code_simp


subsection \<open>The endpoint\<close>




text \<open>
  C6: when the evaluator fails on the normalised text, with whatever error, \<open>try_math\<close>
  returns \<open>None\<close> and \<open>ask\<close> goes on to the intent resolver and, if that has no answer,
  to the backend; the outcome does not mention the error. The same holds for
  \<open>ai_server_2.py\<close>.
\<close>

theorem evaluator_failure_falls_through:
  assumes "user_text_of b = Inr t" and "t \<noteq> []"
    and "safe_eval (py_parse env) (math_text t) = Inl e"
  shows "try_math env t = None \<and> try_math_2 env t = None \<and>
         ask env b =
           (case local_answer (now env) t of
              Some reply \<Rightarrow> ([MathPath, IntentResolver], Inr reply)
            | None \<Rightarrow> ([MathPath, IntentResolver, Backend], ollama_reply env t)) \<and>
         ask_2 env b =
           (case local_answer_2 (now env) t of
              Some reply \<Rightarrow> ([MathPath, IntentResolver], Inr reply)
            | None \<Rightarrow> ([MathPath, IntentResolver, Backend], ollama_reply env t))"
  using assms by (simp add: ask_def ask_2_def try_math_eq try_math_2_eq)

theorem evaluator_failure_falls_through_witness:
  "safe_eval (py_parse sample_env) (math_text ''10 divided by 0'') = Inl ZeroDivisionError \<and>
   try_math sample_env ''10 divided by 0'' = None \<and>
   ask sample_env (text_request ''10 divided by 0'')
     = ([MathPath, IntentResolver, Backend], Inl BackendError)"
proof -
  have h1: "user_text_of (text_request ''10 divided by 0'') = Inr ''10 divided by 0''"
    by code_simp
  have h2: "''10 divided by 0'' \<noteq> []" by simp
  have h3: "safe_eval (py_parse sample_env) (math_text ''10 divided by 0'')
              = Inl ZeroDivisionError"
    by code_simp
  have v: "local_answer (now sample_env) ''10 divided by 0'' = None" by code_simp
  have w: "ollama_reply sample_env ''10 divided by 0'' = Inl BackendError" by code_simp
  show ?thesis
    using evaluator_failure_falls_through [OF h1 h2 h3] h3 v w by simp
qed

text \<open>
  C7, as the code has it: for the text \<open>two plus two\<close> the math path answers, with
  \<open>The answer is: 4.\<close> in \<open>ai_server.py\<close> and with \<open>The answer is 4.\<close> in
  \<open>ai_server_2.py\<close>, whatever the clock and the backend.
\<close>

theorem two_plus_two:
  "ask env (text_request ''two plus two'') = ([MathPath], Inr ''The answer is: 4.'') \<and>
   ask_2 env (text_request ''two plus two'') = ([MathPath], Inr ''The answer is 4.'')"
  by code_simp

text \<open>
  C7, as the claim states it, fails for \<open>ai_server_2.py\<close>, whose reply has no colon.
\<close>

theorem two_plus_two_counterexample:
  "ask_2 sample_env (text_request ''two plus two'') \<noteq> ([MathPath], Inr ''The answer is: 4.'')"
  by code_simp



subsection \<open>Intent resolution\<close>



subsection \<open>The evaluator\<close>

text \<open>
  C1: whatever Python's parser makes of the text, \<open>safe_eval\<close> returns a value only
  for a tree of numeric literals and the four whitelisted operators, and the value is
  the one that these four operators compute from the literals. A tree with any other
  node (a name, a call, an attribute access, a unary operator, another binary operator,
  ...) gives an error. Errors are values of the model; \<open>try_math\<close> turns each of them
  into \<open>None\<close>.
\<close>

theorem safe_eval_whitelist:
  "(safe_eval py s = Inr v \<longrightarrow>
      (\<exists>tree. ast_parse py s = Inr tree \<and> arithmetic tree \<and> arith_value tree = Inr v)) \<and>
   (ast_parse py s = Inr tree \<and> \<not> arithmetic tree \<longrightarrow> (\<exists>e. safe_eval py s = Inl e))"
proof -
  have "\<exists>e. eval_node tree = Inl e" if "\<not> arithmetic tree"
    using that eval_node_value [of tree] by (cases "eval_node tree") auto
  then show ?thesis
    by (auto simp: safe_eval_def split: sum.splits dest: eval_node_value)
qed

theorem safe_eval_whitelist_witness:
  "safe_eval (\<lambda>s. Inr (Call (Attribute (Name ''os'') ''getcwd'') [])) ''os.getcwd()''
     = Inl (ValueError ''Invalid expression'') \<and>
   safe_eval (\<lambda>s. Inr (Call (Attribute (Name ''os'') ''getcwd'') [])) ''2+3*4'' = Inr (PyInt 14)"
proof -
  have a: "ast_parse (\<lambda>s. Inr (Call (Attribute (Name ''os'') ''getcwd'') [])) ''os.getcwd()''
             = Inr (Call (Attribute (Name ''os'') ''getcwd'') [])"
    by code_simp
  have b: "safe_eval (\<lambda>s. Inr (Call (Attribute (Name ''os'') ''getcwd'') [])) ''2+3*4''
             = Inr (PyInt 14)"
    by code_simp
  have c: "\<not> arithmetic (Call (Attribute (Name ''os'') ''getcwd'') [])" by simp
  have "\<exists>e. safe_eval (\<lambda>s. Inr (Call (Attribute (Name ''os'') ''getcwd'') [])) ''os.getcwd()''
              = Inl e"
    using safe_eval_whitelist [of "\<lambda>s. Inr (Call (Attribute (Name ''os'') ''getcwd'') [])"
        "''os.getcwd()''" "PyInt 0" "Call (Attribute (Name ''os'') ''getcwd'') []"] a c
    by blast
  then show ?thesis using a b by (auto simp: safe_eval_def)
qed

text \<open>
  C4, as the code has it: a division whose operands evaluate and whose divisor is zero
  always fails. The error is \<open>ZeroDivisionError\<close>, except that it is \<open>OverflowError\<close>
  when the divisor is a float zero and the dividend an \<open>int\<close> too large for a float
  (the dividend is converted first). A tree that contains a division by zero
  evaluates to an error, never to a number, and \<open>try_math\<close> returns \<open>None\<close> for a text
  that parses to such a tree.
\<close>

theorem division_by_zero_fails:
  "(eval_node l = Inr a \<and> eval_node r = Inr z \<and> is_zero z \<longrightarrow>
      eval_node (BinOp l Div r) =
        Inl (if z = PyFloat (Fin 0) \<and> as_float a = Inl OverflowError then OverflowError
             else ZeroDivisionError)) \<and>
   (zero_division_in tree \<longrightarrow>
      (\<exists>e. eval_node tree = Inl e) \<and>
      (ast_parse (py_parse env) (math_text t) = Inr tree \<longrightarrow>
         try_math env t = None \<and> try_math_2 env t = None))"
proof -
  have "try_math env t = None \<and> try_math_2 env t = None"
    if "zero_division_in tree" and "ast_parse (py_parse env) (math_text t) = Inr tree"
    using zero_division_in_error [OF that(1)] that(2)
    by (auto simp: try_math_eq try_math_2_eq safe_eval_def)
  then show ?thesis
    using zero_division_in_error [of tree] truediv_zero [of z a]
    by (auto simp: ALLOWED_OPS_def)
qed

theorem division_by_zero_fails_witness:
  "safe_eval (py_parse sample_env) ''4/0'' = Inl ZeroDivisionError \<and>
   try_math sample_env ''4/0'' = None \<and>
   try_math sample_env ''1 plus 4 divided by 0'' = None"
proof -
  have p: "ast_parse (py_parse sample_env) ''4/0''
             = Inr (BinOp (Num (PyInt 4)) Div (Num (PyInt 0)))"
    by code_simp
  have q: "ast_parse (py_parse sample_env) (math_text ''1 plus 4 divided by 0'')
             = Inr (BinOp (Num (PyInt 1)) Add (BinOp (Num (PyInt 4)) Div (Num (PyInt 0))))"
    by code_simp
  have m: "math_text ''4/0'' = ''4/0''" by code_simp
  have z: "zero_division_in
             (BinOp (Num (PyInt 1)) Add (BinOp (Num (PyInt 4)) Div (Num (PyInt 0))))"
    by (simp add: is_zero_def)
  have z': "zero_division_in (BinOp (Num (PyInt 4)) Div (Num (PyInt 0)))"
    by (simp add: is_zero_def)
  have c: "as_float (PyInt 4) \<noteq> Inl OverflowError" by code_simp
  have "eval_node (BinOp (Num (PyInt 4)) Div (Num (PyInt 0))) = Inl ZeroDivisionError"
    using division_by_zero_fails [of "Num (PyInt 4)" "PyInt 4" "Num (PyInt 0)" "PyInt 0"] c
    by (simp add: is_zero_def)
  moreover have "try_math sample_env ''4/0'' = None"
    using division_by_zero_fails
            [of _ _ _ _ "BinOp (Num (PyInt 4)) Div (Num (PyInt 0))" sample_env "''4/0''"]
          z' p m
    by simp
  moreover have "try_math sample_env ''1 plus 4 divided by 0'' = None"
    using division_by_zero_fails [of _ _ _ _ _ sample_env "''1 plus 4 divided by 0''"] z q
    by blast
  ultimately show ?thesis using p by (simp add: safe_eval_def)
qed

text \<open>
  C4, as the claim states it, fails: the dividend below has 309 digits and is too
  large for a float, the divisor is the float zero, and the error is \<open>OverflowError\<close>,
  not \<open>ZeroDivisionError\<close>.
\<close>

theorem division_by_zero_counterexample:
  "safe_eval (py_parse sample_env)
     ''200000000000000000000000000000000000000000000000000000000000000000000000000000000000000000000000000000000000000000000000000000000000000000000000000000000000000000000000000000000000000000000000000000000000000000000000000000000000000000000000000000000000000000000000000000000000000000000000000000000000000000000/0.0''
     = Inl OverflowError"
proof -
  have m: "list_all math_char
             ''200000000000000000000000000000000000000000000000000000000000000000000000000000000000000000000000000000000000000000000000000000000000000000000000000000000000000000000000000000000000000000000000000000000000000000000000000000000000000000000000000000000000000000000000000000000000000000000000000000000000000000000/0.0''"
    by code_simp
  have "parse_math
          ''200000000000000000000000000000000000000000000000000000000000000000000000000000000000000000000000000000000000000000000000000000000000000000000000000000000000000000000000000000000000000000000000000000000000000000000000000000000000000000000000000000000000000000000000000000000000000000000000000000000000000000000/0.0''
          = Inr (BinOp (Num (PyInt 200000000000000000000000000000000000000000000000000000000000000000000000000000000000000000000000000000000000000000000000000000000000000000000000000000000000000000000000000000000000000000000000000000000000000000000000000000000000000000000000000000000000000000000000000000000000000000000000000000000000000000000))
                   Div (Num (PyFloat (Fin 0))))"
    by (simp add: parse_math_def lex_big parse_sum_def parse_term_def del: lex.simps)
  then show ?thesis
    using m by (simp add: safe_eval_def ast_parse_def ALLOWED_OPS_def as_float_big)
qed

subsection \<open>The math path\<close>

text \<open>
  C8: the normalisation of the math path (lower case, number words, operator words
  with the infix x, the character filter, \<open>strip\<close>) is idempotent.
\<close>

theorem math_text_idempotent: "math_text (math_text x) = math_text x"
proof -
  define u where "u = math_text x"
  have m: "list_all math_char u" unfolding u_def by (rule math_text_chars)
  have "strip u = u" unfolding u_def math_text_def by (rule strip_strip)
  then have "math_text u = u"
    using m by (simp add: math_text_def lower_math words_to_numbers_math
                  words_to_operators_math keep_math_math)
  then show ?thesis by (simp add: u_def)
qed

theorem math_text_idempotent_witness:
  "math_text ''What is 3 x 4?'' = ''3*4'' \<and> math_text ''3*4'' = ''3*4''"
proof -
  have a: "math_text ''What is 3 x 4?'' = ''3*4''" by code_simp
  show ?thesis using math_text_idempotent [of "''What is 3 x 4?''"] a by simp
qed




text \<open>
  C5, as the code has it: on arithmetic text (digits, \<open>+ - * / .\<close> and blanks, the only
  text \<open>try_math\<close> passes on) \<open>safe_eval\<close> returns a value only if the tokens of the
  text are numbers separated by single operators \<open>+ - * /\<close>. So a sign in front of a
  number, the operators \<open>**\<close> and \<open>//\<close> and a stray dot all give an error.
  Parentheses, letters and \<open>^\<close> never reach the evaluator from \<open>try_math\<close>: its
  character filter deletes them and what is left of the text is evaluated.
\<close>

theorem value_only_for_flat_text:
  assumes "list_all math_char s" and "safe_eval py s = Inr v"
  shows "\<exists>ts. lex s = Inr ts \<and> flat_tokens ts"
proof -
  obtain tree where p: "parse_math s = Inr tree" and e: "eval_node tree = Inr v"
    using assms by (auto simp: safe_eval_def ast_parse_def split: sum.splits)
  obtain ts where l: "lex s = Inr ts" and q: "parse_sum ts = Some (tree, [])"
    using p by (auto simp: parse_math_def split: if_splits sum.splits option.splits list.splits)
  have "arithmetic tree" using eval_node_value [OF e] by simp
  then have "flat_tokens ts" using q by (intro parse_sum_arith)
  then show ?thesis using l by blast
qed

theorem value_only_for_flat_text_witness:
  "list_all math_char ''2 - 3'' \<and>
   safe_eval (py_parse sample_env) ''2 - 3'' = Inr (PyInt (- 1)) \<and>
   (\<exists>ts. lex ''2 - 3'' = Inr ts \<and> flat_tokens ts) \<and>
   safe_eval (py_parse sample_env) ''2 - -3'' = Inl (ValueError ''Invalid expression'') \<and>
   safe_eval (py_parse sample_env) ''2**3'' = Inl (ValueError ''Invalid operator'')"
proof -
  have h1: "list_all math_char ''2 - 3''" by code_simp
  have h2: "safe_eval (py_parse sample_env) ''2 - 3'' = Inr (PyInt (- 1))" by code_simp
  have a: "safe_eval (py_parse sample_env) ''2 - -3'' = Inl (ValueError ''Invalid expression'')"
    by code_simp
  have b: "safe_eval (py_parse sample_env) ''2**3'' = Inl (ValueError ''Invalid operator'')"
    by code_simp
  show ?thesis
    using value_only_for_flat_text [OF h1 h2] h1 h2 a b by simp
qed

text \<open>
  C5, as the claim states it, fails: the text \<open>(2+3)*4\<close> contains parentheses and
  \<open>try_math\<close> answers 14, the value of the text without them.
\<close>

theorem parentheses_counterexample:
  "try_math sample_env ''(2+3)*4'' = Some ''The answer is: 14.''"
  by code_simp

end
